theory Spec2Isabelle
  imports Main "HOL-Library.Word" "HOL-Library.Sublist"
begin

section \<open>Go values\<close>

text \<open>
  The converters take a \<^verbatim>\<open>map[string]interface{}\<close>. An \<^verbatim>\<open>interface{}\<close> value is modelled
  by its dynamic type and value: \<open>VNil\<close> is the nil interface, \<open>VOther\<close> stands for a
  value of any dynamic type that no type assertion of the source names. A Go map is
  either nil (\<open>None\<close>) or a partial function from keys to values; a slice
  is a list (the nil slice and the empty slice both have length 0 and are both \<open>[]\<close>).
  A \<^verbatim>\<open>float64\<close> is carried as its IEEE-754 bit pattern.
\<close>

datatype val =
    VNil
  | VString string
  | VInt int
  | VBool bool
  | VFloat64 "64 word"
  | VList "val list"
  | VMap "(string \<Rightarrow> val option) option"
  | VStringMap "(string \<Rightarrow> string option) option"
  | VOther

type_synonym gomap = "(string \<Rightarrow> val option) option"

text \<open>
  A call either returns \<^verbatim>\<open>(result, nil)\<close>, or returns \<^verbatim>\<open>(nil, err)\<close> with
  \<^verbatim>\<open>err = fmt.Errorf(msg)\<close>, or panics (a failed single-value type assertion).
\<close>

datatype error = Errorf string | Panic

definition bind_result :: "error + 'a \<Rightarrow> ('a \<Rightarrow> error + 'b) \<Rightarrow> error + 'b" where
  "bind_result r f = (case r of Inl e \<Rightarrow> Inl e | Inr x \<Rightarrow> f x)"

text \<open>The index expression \<^verbatim>\<open>m[k]\<close>: the zero value (the nil interface) when the key is
  absent, also on a nil map.\<close>

definition index :: "gomap \<Rightarrow> string \<Rightarrow> val" where
  "index m k = (case m of None \<Rightarrow> VNil
                | Some f \<Rightarrow> (case f k of None \<Rightarrow> VNil | Some v \<Rightarrow> v))"

text \<open>The comma-ok form \<^verbatim>\<open>v, ok := m[k]\<close>: \<open>None\<close> is \<^verbatim>\<open>ok == false\<close>.\<close>

definition lookup :: "gomap \<Rightarrow> string \<Rightarrow> val option" where
  "lookup m k = (case m of None \<Rightarrow> None | Some f \<Rightarrow> f k)"

text \<open>The single-value type assertions \<^verbatim>\<open>v.(T)\<close>, which panic on any other dynamic type
  and on the nil interface.\<close>

definition assert_string :: "val \<Rightarrow> error + string" where
  "assert_string v = (case v of VString s \<Rightarrow> Inr s | _ \<Rightarrow> Inl Panic)"

definition assert_list :: "val \<Rightarrow> error + val list" where
  "assert_list v = (case v of VList xs \<Rightarrow> Inr xs | _ \<Rightarrow> Inl Panic)"

definition assert_map :: "val \<Rightarrow> error + gomap" where
  "assert_map v = (case v of VMap m \<Rightarrow> Inr m | _ \<Rightarrow> Inl Panic)"





text \<open>\<^verbatim>\<open>strings.Contains\<close>, to say that an error message names a field.\<close>

fun contains :: "string \<Rightarrow> string \<Rightarrow> bool" where
  "contains [] sub = (sub = [])"
| "contains (c # s) sub = (prefix sub (c # s) \<or> contains s sub)"

definition error_names :: "string \<Rightarrow> error + 'a \<Rightarrow> bool" where
  "error_names field r = (case r of Inl (Errorf msg) \<Rightarrow> contains msg field | _ \<Rightarrow> False)"

section \<open>Schemas of package network\<close>

datatype ValueType =
  TypeInvalid | TypeBool | TypeInt | TypeFloat | TypeString | TypeList | TypeMap | TypeSet

datatype SchemaValidateFunc = NoZeroValues | ValidateIPv4AddressSchema | ValidatePassword

text \<open>The fields of \<^verbatim>\<open>schema.Schema\<close> that the builders set; \<open>'r\<close> is the type of a
  nested resource (\<^verbatim>\<open>Elem\<close>). The zero value is the empty composite literal.\<close>

record 'r Schema =
  Type :: ValueType
  Required :: bool
  Optional :: bool
  Computed :: bool
  Sensitive :: bool
  Description :: string
  ValidateFunc :: "SchemaValidateFunc option"
  Elem :: "'r option"

definition zeroSchema :: "'r Schema" where
  "zeroSchema = \<lparr>Type = TypeInvalid, Required = False, Optional = False, Computed = False,
     Sensitive = False, Description = [], ValidateFunc = None, Elem = None\<rparr>"

text \<open>A \<^verbatim>\<open>map[string]*schema.Schema\<close> literal, kept as the list of its entries in the
  order of the source (the keys of each literal are distinct) so that the declared
  attributes can be enumerated.\<close>

type_synonym 'r Resource = "(string \<times> 'r Schema) list"

definition VMNicSchema :: "'r Resource" where
  "VMNicSchema =
    [(''id'', zeroSchema\<lparr>Type := TypeString, Required := True,
        Description := ''ESXI host vmnic ID to be associated with a VDS, once added to cluster'',
        ValidateFunc := Some NoZeroValues\<rparr>),
     (''uplink'', zeroSchema\<lparr>Type := TypeString, Optional := True,
        Description := ''Uplink to be associated with vmnic'',
        ValidateFunc := Some NoZeroValues\<rparr>),
     (''vds_name'', zeroSchema\<lparr>Type := TypeString, Optional := True,
        Description := ''Name of the VDS to associate with the ESXi host'',
        ValidateFunc := Some NoZeroValues\<rparr>)]"

text \<open>\<^verbatim>\<open>NsxManagerNodeSchema()\<close> is declared in another file of the package; its result is
  the parameter \<open>NsxManagerNodeSchema\<close>.\<close>

definition NsxSchema :: "'r \<Rightarrow> 'r Resource" where
  "NsxSchema NsxManagerNodeSchema =
    [(''vip'', zeroSchema\<lparr>Type := TypeString, Required := True,
        Description := ''Virtual IP address which would act as proxy/alias for NSX Managers'',
        ValidateFunc := Some ValidateIPv4AddressSchema\<rparr>),
     (''vip_fqdn'', zeroSchema\<lparr>Type := TypeString, Required := True,
        Description := ''FQDN for VIP so that common SSL certificates can be installed across all managers'',
        ValidateFunc := Some NoZeroValues\<rparr>),
     (''license_key'', zeroSchema\<lparr>Type := TypeString, Required := True,
        Description := ''NSX license value'',
        ValidateFunc := Some NoZeroValues\<rparr>),
     (''form_factor'', zeroSchema\<lparr>Type := TypeString, Optional := True,
        Description := ''NSX manager form factor'',
        ValidateFunc := Some NoZeroValues\<rparr>),
     (''nsx_manager_admin_password'', zeroSchema\<lparr>Type := TypeString, Required := True,
        Sensitive := True,
        Description := ''NSX manager admin password (basic auth and SSH)'',
        ValidateFunc := Some ValidatePassword\<rparr>),
     (''nsx_manager_audit_password'', zeroSchema\<lparr>Type := TypeString, Optional := True,
        Sensitive := True,
        Description := ''NSX manager Audit password'',
        ValidateFunc := Some ValidatePassword\<rparr>),
     (''nsx_manager_node'', zeroSchema\<lparr>Type := TypeList, Required := True,
        Description := ''Specification details of the NSX Manager virtual machines. 3 of these are required for the first workload domain'',
        Elem := Some NsxManagerNodeSchema\<rparr>)]"

definition NsxClusterRefSchema :: "'r Resource" where
  "NsxClusterRefSchema =
    [(''id'', zeroSchema\<lparr>Type := TypeString, Computed := True,
        Description := ''ID of the NSX cluster''\<rparr>),
     (''vip'', zeroSchema\<lparr>Type := TypeString, Computed := True,
        Description := ''VIP (Virtual IP Address) of the NSX cluster''\<rparr>),
     (''vip_fqdn'', zeroSchema\<lparr>Type := TypeString, Computed := True,
        Description := ''FQDN for VIP of the NSX cluster''\<rparr>)]"

definition required_fields :: "'r Resource \<Rightarrow> string list" where
  "required_fields res = map fst (filter (\<lambda>(k, s). Required s) res)"

definition optional_fields :: "'r Resource \<Rightarrow> string list" where
  "optional_fields res = map fst (filter (\<lambda>(k, s). Optional s) res)"

section \<open>Converters of package network\<close>

text \<open>The fields of the SDK models that the converters touch; every other field of a
  model keeps its zero value.\<close>

record VMNic =
  ID :: string
  Uplink :: string
  VdsName :: string

text \<open>\<^verbatim>\<open>validationutils.IsEmpty\<close> is declared in another package of the repository; it is
  the parameter \<open>IsEmpty\<close> of each converter.\<close>

definition TryConvertToVmNic :: "(val \<Rightarrow> bool) \<Rightarrow> gomap \<Rightarrow> error + VMNic" where
  "TryConvertToVmNic IsEmpty object =
    (if object = None then Inl (Errorf ''cannot convert to VMNic, object is nil'')
     else
       bind_result (assert_string (index object ''id'')) (\<lambda>id.
       if length id = 0 then Inl (Errorf ''cannot convert to VMNic, id is required'')
       else
         let result = \<lparr>VMNic.ID = id, Uplink = [], VdsName = []\<rparr> in
         bind_result
           (case lookup object ''uplink'' of
              Some uplink \<Rightarrow>
                if \<not> IsEmpty uplink
                then bind_result (assert_string uplink) (\<lambda>s. Inr (result\<lparr>Uplink := s\<rparr>))
                else Inr result
            | None \<Rightarrow> Inr result) (\<lambda>result.
         bind_result
           (case lookup object ''vds_name'' of
              Some vdsName \<Rightarrow>
                if \<not> IsEmpty vdsName
                then bind_result (assert_string vdsName) (\<lambda>s. Inr (result\<lparr>VdsName := s\<rparr>))
                else Inr result
            | None \<Rightarrow> Inr result) (\<lambda>result.
         Inr result))))"

text \<open>\<^verbatim>\<open>Vip\<close> and \<^verbatim>\<open>VipFqdn\<close> are \<^verbatim>\<open>*string\<close> in the model (the converter stores
  \<^verbatim>\<open>&vip\<close>); \<open>'n\<close> is \<^verbatim>\<open>models.NsxManagerSpec\<close>.\<close>

record 'n NsxTSpec =
  FormFactor :: string
  LicenseKey :: string
  NsxManagerAdminPassword :: string
  NsxManagerAuditPassword :: string
  NsxManagerSpecs :: "'n list"
  Vip :: "string option"
  VipFqdn :: "string option"

text \<open>The loop over \<^verbatim>\<open>nsxManagerList\<close>; \<open>nsxManagerSpecs\<close> is the slice built so far (each
  iteration declares its own \<^verbatim>\<open>nsxManagerSpec\<close>, so the pointers appended are distinct).
  \<^verbatim>\<open>TryConvertToNsxManagerNodeSpec\<close> is declared in another file of the package and is a
  parameter.\<close>

fun convertNsxManagerList ::
  "(gomap \<Rightarrow> error + 'n) \<Rightarrow> val list \<Rightarrow> 'n list \<Rightarrow> error + 'n list" where
  "convertNsxManagerList TryConvertToNsxManagerNodeSpec [] nsxManagerSpecs = Inr nsxManagerSpecs"
| "convertNsxManagerList TryConvertToNsxManagerNodeSpec (nsxManagerListEntry # rest) nsxManagerSpecs =
     bind_result (assert_map nsxManagerListEntry) (\<lambda>nsxManager.
     bind_result (TryConvertToNsxManagerNodeSpec nsxManager) (\<lambda>nsxManagerSpec.
     convertNsxManagerList TryConvertToNsxManagerNodeSpec rest (nsxManagerSpecs @ [nsxManagerSpec])))"

definition TryConvertToNsxSpec ::
  "(val \<Rightarrow> bool) \<Rightarrow> (gomap \<Rightarrow> error + 'n) \<Rightarrow> gomap \<Rightarrow> error + 'n NsxTSpec" where
  "TryConvertToNsxSpec IsEmpty TryConvertToNsxManagerNodeSpec object =
    (if object = None then Inl (Errorf ''cannot convert to NsxTSpec, object is nil'')
     else
       bind_result (assert_string (index object ''vip'')) (\<lambda>vip.
       if length vip = 0 then Inl (Errorf ''cannot convert to NsxTSpec, vip is required'')
       else
       bind_result (assert_string (index object ''vip_fqdn'')) (\<lambda>vipFqdn.
       if length vipFqdn = 0 then Inl (Errorf ''cannot convert to NsxTSpec, vip_fqdn is required'')
       else
       if index object ''nsx_manager'' = VNil
       then Inl (Errorf ''cannot convert to NsxTSpec, nsx_manager is required'')
       else
       bind_result (assert_string (index object ''nsx_manager_admin_password'')) (\<lambda>nsxManagerAdminPassword.
       if length nsxManagerAdminPassword = 0
       then Inl (Errorf ''cannot convert to NsxTSpec, nsx_manager_admin_password is required'')
       else
       bind_result (assert_string (index object ''license_key'')) (\<lambda>licenseKey.
       if length licenseKey = 0
       then Inl (Errorf ''cannot convert to NsxTSpec, license_key is required'')
       else
         let result = \<lparr>FormFactor = [], LicenseKey = licenseKey,
                        NsxManagerAdminPassword = nsxManagerAdminPassword,
                        NsxManagerAuditPassword = [], NsxManagerSpecs = [],
                        Vip = Some vip, VipFqdn = Some vipFqdn\<rparr> in
         bind_result
           (case lookup object ''form_factor'' of
              Some formFactor \<Rightarrow>
                if \<not> IsEmpty formFactor
                then bind_result (assert_string formFactor) (\<lambda>s. Inr (result\<lparr>FormFactor := s\<rparr>))
                else Inr result
            | None \<Rightarrow> Inr result) (\<lambda>result.
         bind_result
           (case lookup object ''nsx_manager_audit_password'' of
              Some nsxManagerAuditPassword \<Rightarrow>
                if \<not> IsEmpty nsxManagerAuditPassword
                then bind_result (assert_string nsxManagerAuditPassword)
                       (\<lambda>s. Inr (result\<lparr>NsxManagerAuditPassword := s\<rparr>))
                else Inr result
            | None \<Rightarrow> Inr result) (\<lambda>result.
         bind_result (assert_list (index object ''nsx_manager_node'')) (\<lambda>nsxManagerList.
         if length nsxManagerList = 0
         then Inl (Errorf ''cannot convert to NsxTSpec, at least one entry for nsx_manager is required'')
         else
         bind_result (convertNsxManagerList TryConvertToNsxManagerNodeSpec nsxManagerList [])
           (\<lambda>nsxManagerSpecs.
         Inr (result\<lparr>NsxManagerSpecs := nsxManagerSpecs\<rparr>))))))))))"

text \<open>The SDK model \<^verbatim>\<open>NsxTClusterReference\<close>, whose three fields are strings.\<close>

record NsxTClusterReference =
  ID :: string
  Vip :: string
  VipFqdn :: string

text \<open>The result is a pointer to the local map: \<open>None\<close> would be the nil pointer, and
  the map under the pointer is a \<open>gomap\<close>.\<close>

definition FlattenNsxClusterRef :: "NsxTClusterReference option \<Rightarrow> gomap option" where
  "FlattenNsxClusterRef nsxClusterRef =
    (let result = Map.empty in
     case nsxClusterRef of
       None \<Rightarrow> Some (Some result)
     | Some ref \<Rightarrow>
         let result = result(''id'' \<mapsto> VString (NsxTClusterReference.ID ref));
             result = result(''vip'' \<mapsto> VString (NsxTClusterReference.Vip ref));
             result = result(''vip_fqdn'' \<mapsto> VString (NsxTClusterReference.VipFqdn ref))
         in Some (Some result))"

section \<open>Package sddc\<close>

record ResourcePoolSpec =
  CPULimit :: "64 word"
  CPUReservationExpandable :: bool
  CPUReservationMhz :: "64 word"
  CPUReservationPercentage :: "32 word option"
  CPUSharesValue :: "32 word"
  CPUSharesLevel :: string
  MemoryLimit :: "64 word"
  MemorySharesLevel :: string
  MemoryReservationPercentage :: "32 word option"
  MemoryReservationExpandable :: "bool option"
  MemoryReservationMb :: "64 word"
  MemorySharesValue :: "32 word"
  Name :: "string option"
  Type :: string

record SDDCClusterSpec =
  ClusterEvcMode :: string
  ClusterName :: "string option"
  HostFailuresToTolerate :: "32 word option"
  VMFolders :: "(string \<Rightarrow> string option) option"
  ResourcePoolSpecs :: "ResourcePoolSpec list"

text \<open>
  What package sddc takes from elsewhere: the helpers of \<^verbatim>\<open>resource_utils\<close> and
  \<^verbatim>\<open>validation\<close>, declared in other packages of the repository (each returns its result
  or panics), and the conversion \<^verbatim>\<open>int64(x)\<close> of a \<^verbatim>\<open>float64\<close>, which Go leaves to the
  implementation when the value does not fit.
\<close>

record sddc_imports =
  IsEmpty :: "val \<Rightarrow> bool"
  ToStringPointer :: "val \<Rightarrow> error + string option"
  ToInt32Pointer :: "val \<Rightarrow> error + 32 word option"
  ToBoolPointer :: "val \<Rightarrow> error + bool option"
  int64_of_float64 :: "64 word \<Rightarrow> 64 word"





section \<open>Concrete inputs\<close>

text \<open>
  The \<^verbatim>\<open>nsx_configuration\<close> block of the acceptance test \<^verbatim>\<open>testAccVcfDomainConfig\<close>, as
  the attribute map of that block: every attribute of \<open>NsxSchema\<close> is a key. The
  licence key is the argument of the test's template; the block leaves
  \<^verbatim>\<open>nsx_manager_audit_password\<close> out, so that its value is the empty string, and the map
  takes it as an argument as well.
\<close>

definition testAcc_nsx_manager_node :: "string \<Rightarrow> string \<Rightarrow> string \<Rightarrow> val" where
  "testAcc_nsx_manager_node name ip_address dns_name =
     VMap (Some [''name'' \<mapsto> VString name,
                 ''ip_address'' \<mapsto> VString ip_address,
                 ''dns_name'' \<mapsto> VString dns_name,
                 ''subnet_mask'' \<mapsto> VString ''255.255.255.0'',
                 ''gateway'' \<mapsto> VString ''10.0.0.250''])"

definition testAcc_nsx_manager_nodes :: "val list" where
  "testAcc_nsx_manager_nodes =
     [testAcc_nsx_manager_node ''sfo-w01-nsx01a'' ''10.0.0.62'' ''sfo-w01-nsx01a.sfo.rainpole.io'',
      testAcc_nsx_manager_node ''sfo-w01-nsx01b'' ''10.0.0.63'' ''sfo-w01-nsx01b.sfo.rainpole.io'',
      testAcc_nsx_manager_node ''sfo-w01-nsx01c'' ''10.0.0.64'' ''sfo-w01-nsx01c.sfo.rainpole.io'']"

definition testAcc_nsx_configuration :: "string \<Rightarrow> string \<Rightarrow> (string \<Rightarrow> val option)" where
  "testAcc_nsx_configuration nsxLicenseKey auditPassword =
     [''vip'' \<mapsto> VString ''10.0.0.66'',
      ''vip_fqdn'' \<mapsto> VString ''sfo-w01-nsx01.sfo.rainpole.io'',
      ''nsx_manager_admin_password'' \<mapsto> VString ''Nqkva_parola1'',
      ''form_factor'' \<mapsto> VString ''small'',
      ''license_key'' \<mapsto> VString nsxLicenseKey,
      ''nsx_manager_audit_password'' \<mapsto> VString auditPassword,
      ''nsx_manager_node'' \<mapsto> VList testAcc_nsx_manager_nodes]"

definition testAcc_license_key :: string where
  "testAcc_license_key = ''AAAAA-BBBBB-CCCCC-DDDDD-EEEEE''"

text \<open>The same block with an additional key \<^verbatim>\<open>nsx_manager\<close>, which \<open>NsxSchema\<close> does not
  declare, and the \<^verbatim>\<open>vmnic\<close> block of the same test.\<close>

definition nsx_configuration_with_nsx_manager :: "string \<Rightarrow> val option" where
  "nsx_configuration_with_nsx_manager =
     (testAcc_nsx_configuration testAcc_license_key [])
       (''nsx_manager'' \<mapsto> VList testAcc_nsx_manager_nodes)"

definition testAcc_vmnic :: "string \<Rightarrow> val option" where
  "testAcc_vmnic =
     [''id'' \<mapsto> VString ''vmnic0'',
      ''uplink'' \<mapsto> VString [],
      ''vds_name'' \<mapsto> VString ''sfo-w01-cl01-vds01'']"

text \<open>Instances of the two parameters of the converters, to run them on concrete
  inputs: a value is empty when it is nil or the empty string, and a node converts to
  its \<^verbatim>\<open>name\<close>.\<close>

definition nil_or_empty_string :: "val \<Rightarrow> bool" where
  "nil_or_empty_string v = (v = VNil \<or> v = VString [])"

definition node_name :: "gomap \<Rightarrow> error + string" where
  "node_name m = assert_string (index m ''name'')"

text \<open>What the converter makes of \<open>nsx_configuration_with_nsx_manager\<close> with these
  instances.\<close>

definition converted_nsx_configuration :: "string NsxTSpec" where
  "converted_nsx_configuration =
     \<lparr>FormFactor = ''small'', LicenseKey = testAcc_license_key,
      NsxManagerAdminPassword = ''Nqkva_parola1'', NsxManagerAuditPassword = [],
      NsxManagerSpecs = [''sfo-w01-nsx01a'', ''sfo-w01-nsx01b'', ''sfo-w01-nsx01c''],
      Vip = Some ''10.0.0.66'', VipFqdn = Some ''sfo-w01-nsx01.sfo.rainpole.io''\<rparr>"

text \<open>An attribute map is populated on a list of attributes when each of them is a key
  of the map and holds neither nil, nor the empty string, nor the empty list; it is
  fully populated for a schema when it is populated on every attribute the schema
  declares.\<close>

definition populated :: "string list \<Rightarrow> (string \<Rightarrow> val option) \<Rightarrow> bool" where
  "populated ks m =
     list_all (\<lambda>k. case m k of None \<Rightarrow> False
                    | Some v \<Rightarrow> v \<noteq> VNil \<and> v \<noteq> VString [] \<and> v \<noteq> VList []) ks"

definition fully_populated :: "'r Resource \<Rightarrow> (string \<Rightarrow> val option) \<Rightarrow> bool" where
  "fully_populated res m = populated (map fst res) m"









section \<open>What a spec built from a map holds\<close>



section \<open>Conditions on an attribute map\<close>

text \<open>The attribute holds a string that is not empty.\<close>

definition nonempty_string :: "gomap \<Rightarrow> string \<Rightarrow> bool" where
  "nonempty_string object k = (case index object k of VString s \<Rightarrow> s \<noteq> [] | _ \<Rightarrow> False)"

text \<open>The attribute is absent or empty: the key is missing, or its value is what
  \<open>isEmpty\<close> calls empty, or it is the empty string.\<close>

definition absent_or_empty :: "(val \<Rightarrow> bool) \<Rightarrow> gomap \<Rightarrow> string \<Rightarrow> bool" where
  "absent_or_empty isEmpty object k =
     (case lookup object k of None \<Rightarrow> True | Some v \<Rightarrow> isEmpty v \<or> v = VString [])"

text \<open>The attribute passes the guarded assignment of an optional field: the key is
  missing, or its value is empty for \<open>isEmpty\<close>, or it is a string.\<close>

definition optional_string :: "(val \<Rightarrow> bool) \<Rightarrow> gomap \<Rightarrow> string \<Rightarrow> bool" where
  "optional_string isEmpty object k =
     (case lookup object k of None \<Rightarrow> True
      | Some v \<Rightarrow> isEmpty v \<or> (case v of VString s \<Rightarrow> True | _ \<Rightarrow> False))"

text \<open>The statement \<^verbatim>\<open>if v, ok := object[k]; ok && !IsEmpty(v) { result.F = v.(string) }\<close>
  as a function of the looked-up entry: \<open>upd s\<close> is the result with the field set to
  \<open>s\<close>. The converters above have it inline; the proofs work on this form.\<close>

definition guarded_assign ::
  "(val \<Rightarrow> bool) \<Rightarrow> val option \<Rightarrow> (string \<Rightarrow> 'a) \<Rightarrow> 'a \<Rightarrow> error + 'a" where
  "guarded_assign isEmpty entry upd result =
     (case entry of
        Some v \<Rightarrow> if \<not> isEmpty v then bind_result (assert_string v) (\<lambda>s. Inr (upd s))
                  else Inr result
      | None \<Rightarrow> Inr result)"

section \<open>Auxiliary facts\<close>

lemma bind_result_Inr_iff: "bind_result r f = Inr y \<longleftrightarrow> (\<exists>x. r = Inr x \<and> f x = Inr y)"
  by (cases r) (simp_all add: bind_result_def)

lemma bind_result_Inl: "bind_result (Inl e) f = Inl e"
  by (simp add: bind_result_def)

lemma bind_result_Inr: "bind_result (Inr x) f = f x"
  by (simp add: bind_result_def)


lemma assert_string_Inr_iff: "assert_string v = Inr s \<longleftrightarrow> v = VString s"
  by (cases v) (simp_all add: assert_string_def)

lemma assert_string_VString: "assert_string (VString s) = Inr s"
  by (simp add: assert_string_def)

lemma assert_string_VNil: "assert_string VNil = Inl Panic"
  by (simp add: assert_string_def)

lemma assert_list_Inr_iff: "assert_list v = Inr xs \<longleftrightarrow> v = VList xs"
  by (cases v) (simp_all add: assert_list_def)

lemma assert_map_Inr_iff: "assert_map v = Inr m \<longleftrightarrow> v = VMap m"
  by (cases v) (simp_all add: assert_map_def)

lemma index_VString_lookup: "index object k = VString s \<Longrightarrow> lookup object k = Some (VString s)"
  by (auto simp: index_def lookup_def split: option.splits)

lemma lookup_None_index: "lookup object k = None \<Longrightarrow> index object k = VNil"
  by (auto simp: index_def lookup_def split: option.splits)

text \<open>The attributes each schema declares required and optional: the fields the
  properties below go through.\<close>

lemma VMNicSchema_fields:
  "required_fields (VMNicSchema :: 'r Resource) = [''id'']"
  "optional_fields (VMNicSchema :: 'r Resource) = [''uplink'', ''vds_name'']"
  by (simp_all add: required_fields_def optional_fields_def VMNicSchema_def zeroSchema_def)

lemma NsxSchema_fields:
  "required_fields (NsxSchema NsxManagerNodeSchema) =
     [''vip'', ''vip_fqdn'', ''license_key'', ''nsx_manager_admin_password'', ''nsx_manager_node'']"
  "optional_fields (NsxSchema NsxManagerNodeSchema) =
     [''form_factor'', ''nsx_manager_audit_password'']"
  "''nsx_manager'' \<notin> set (map fst (NsxSchema NsxManagerNodeSchema))"
  by (simp_all add: required_fields_def optional_fields_def NsxSchema_def zeroSchema_def)

lemma NsxClusterRefSchema_fields:
  "map fst (NsxClusterRefSchema :: 'r Resource) = [''id'', ''vip'', ''vip_fqdn'']"
  by (simp add: NsxClusterRefSchema_def)

lemma convertNsxManagerList_Inr:
  "convertNsxManagerList conv entries acc = Inr specs \<Longrightarrow>
   \<exists>new. specs = acc @ new \<and>
     list_all2 (\<lambda>entry s. \<exists>m. entry = VMap m \<and> conv m = Inr s) entries new"
proof (induction entries arbitrary: acc)
  case Nil
  then show ?case by simp
next
  case (Cons entry rest)
  from Cons.prems obtain m s where
    entry: "entry = VMap m" and conv: "conv m = Inr s"
    and rest: "convertNsxManagerList conv rest (acc @ [s]) = Inr specs"
    by (auto simp: bind_result_Inr_iff assert_map_Inr_iff)
  from Cons.IH [OF rest] obtain new where
    "specs = (acc @ [s]) @ new"
    "list_all2 (\<lambda>entry s. \<exists>m. entry = VMap m \<and> conv m = Inr s) rest new"
    by blast
  with entry conv show ?case
    by (intro exI [of _ "s # new"]) simp
qed

text \<open>The converters with each guarded assignment written as \<open>guarded_assign\<close>.\<close>

lemma TryConvertToVmNic_folded:
  "TryConvertToVmNic isEmpty object =
    (if object = None then Inl (Errorf ''cannot convert to VMNic, object is nil'')
     else
       bind_result (assert_string (index object ''id'')) (\<lambda>id.
       if length id = 0 then Inl (Errorf ''cannot convert to VMNic, id is required'')
       else
         bind_result (guarded_assign isEmpty (lookup object ''uplink'')
            (\<lambda>s. \<lparr>VMNic.ID = id, Uplink = [], VdsName = []\<rparr>\<lparr>Uplink := s\<rparr>)
            \<lparr>VMNic.ID = id, Uplink = [], VdsName = []\<rparr>) (\<lambda>result.
         bind_result (guarded_assign isEmpty (lookup object ''vds_name'')
            (\<lambda>s. result\<lparr>VdsName := s\<rparr>) result) (\<lambda>result.
         Inr result))))"
  unfolding TryConvertToVmNic_def guarded_assign_def Let_def by (rule refl)

lemma TryConvertToNsxSpec_folded:
  "TryConvertToNsxSpec isEmpty conv object =
    (if object = None then Inl (Errorf ''cannot convert to NsxTSpec, object is nil'')
     else
       bind_result (assert_string (index object ''vip'')) (\<lambda>vip.
       if length vip = 0 then Inl (Errorf ''cannot convert to NsxTSpec, vip is required'')
       else
       bind_result (assert_string (index object ''vip_fqdn'')) (\<lambda>vipFqdn.
       if length vipFqdn = 0 then Inl (Errorf ''cannot convert to NsxTSpec, vip_fqdn is required'')
       else
       if index object ''nsx_manager'' = VNil
       then Inl (Errorf ''cannot convert to NsxTSpec, nsx_manager is required'')
       else
       bind_result (assert_string (index object ''nsx_manager_admin_password'')) (\<lambda>nsxManagerAdminPassword.
       if length nsxManagerAdminPassword = 0
       then Inl (Errorf ''cannot convert to NsxTSpec, nsx_manager_admin_password is required'')
       else
       bind_result (assert_string (index object ''license_key'')) (\<lambda>licenseKey.
       if length licenseKey = 0
       then Inl (Errorf ''cannot convert to NsxTSpec, license_key is required'')
       else
         bind_result (guarded_assign isEmpty (lookup object ''form_factor'')
            (\<lambda>s. \<lparr>FormFactor = [], LicenseKey = licenseKey,
                        NsxManagerAdminPassword = nsxManagerAdminPassword,
                        NsxManagerAuditPassword = [], NsxManagerSpecs = [],
                        Vip = Some vip, VipFqdn = Some vipFqdn\<rparr>\<lparr>FormFactor := s\<rparr>)
            \<lparr>FormFactor = [], LicenseKey = licenseKey,
                        NsxManagerAdminPassword = nsxManagerAdminPassword,
                        NsxManagerAuditPassword = [], NsxManagerSpecs = [],
                        Vip = Some vip, VipFqdn = Some vipFqdn\<rparr>) (\<lambda>result.
         bind_result (guarded_assign isEmpty (lookup object ''nsx_manager_audit_password'')
            (\<lambda>s. result\<lparr>NsxManagerAuditPassword := s\<rparr>) result) (\<lambda>result.
         bind_result (assert_list (index object ''nsx_manager_node'')) (\<lambda>nsxManagerList.
         if length nsxManagerList = 0
         then Inl (Errorf ''cannot convert to NsxTSpec, at least one entry for nsx_manager is required'')
         else
         bind_result (convertNsxManagerList conv nsxManagerList [])
           (\<lambda>nsxManagerSpecs.
         Inr (result\<lparr>NsxManagerSpecs := nsxManagerSpecs\<rparr>))))))))))"
  unfolding TryConvertToNsxSpec_def guarded_assign_def Let_def by (rule refl)

lemma guarded_assign_Inr:
  "guarded_assign isEmpty entry upd result = Inr r \<Longrightarrow>
     r = result \<or> (\<exists>s. entry = Some (VString s) \<and> r = upd s)"
  by (auto simp: guarded_assign_def bind_result_Inr_iff assert_string_Inr_iff
      split: option.splits if_splits)

lemma guarded_assign_absent_or_empty:
  "guarded_assign isEmpty (lookup object k) upd result = Inr r \<Longrightarrow>
   absent_or_empty isEmpty object k \<Longrightarrow> r = result \<or> r = upd []"
  by (auto simp: guarded_assign_def absent_or_empty_def bind_result_Inr_iff
        assert_string_Inr_iff
      split: option.splits if_splits)

lemma guarded_assign_optional_string:
  "optional_string isEmpty object k \<Longrightarrow>
   \<exists>r. guarded_assign isEmpty (lookup object k) upd result = Inr r"
  by (auto simp: guarded_assign_def optional_string_def bind_result_def assert_string_def
      split: option.splits val.splits)

text \<open>What a successful conversion says about its input.\<close>

lemma TryConvertToNsxSpec_Inr:
  assumes "TryConvertToNsxSpec isEmpty conv object = Inr spec"
  shows "\<exists>vip vipFqdn nsxManagerList.
           index object ''vip'' = VString vip \<and> NsxTSpec.Vip spec = Some vip
         \<and> index object ''vip_fqdn'' = VString vipFqdn \<and> NsxTSpec.VipFqdn spec = Some vipFqdn
         \<and> index object ''nsx_manager_admin_password'' = VString (NsxManagerAdminPassword spec)
         \<and> index object ''license_key'' = VString (LicenseKey spec)
         \<and> index object ''nsx_manager_node'' = VList nsxManagerList
         \<and> nsxManagerList \<noteq> []
         \<and> list_all2 (\<lambda>entry s. \<exists>m. entry = VMap m \<and> conv m = Inr s)
              nsxManagerList (NsxManagerSpecs spec)"
proof -
  from assms obtain vip vipFqdn pw key r1 r2 nsxManagerList specs where
    f: "index object ''vip'' = VString vip" "index object ''vip_fqdn'' = VString vipFqdn"
       "index object ''nsx_manager_admin_password'' = VString pw"
       "index object ''license_key'' = VString key"
       "index object ''nsx_manager_node'' = VList nsxManagerList" "nsxManagerList \<noteq> []"
    and r1: "guarded_assign isEmpty (lookup object ''form_factor'')
            (\<lambda>s. \<lparr>FormFactor = [], LicenseKey = key, NsxManagerAdminPassword = pw,
                  NsxManagerAuditPassword = [], NsxManagerSpecs = [],
                  Vip = Some vip, VipFqdn = Some vipFqdn\<rparr>\<lparr>FormFactor := s\<rparr>)
            \<lparr>FormFactor = [], LicenseKey = key, NsxManagerAdminPassword = pw,
                  NsxManagerAuditPassword = [], NsxManagerSpecs = [],
                  Vip = Some vip, VipFqdn = Some vipFqdn\<rparr> = Inr r1"
    and r2: "guarded_assign isEmpty (lookup object ''nsx_manager_audit_password'')
            (\<lambda>s. r1\<lparr>NsxManagerAuditPassword := s\<rparr>) r1 = Inr r2"
    and specs: "convertNsxManagerList conv nsxManagerList [] = Inr specs"
    and spec: "spec = r2\<lparr>NsxManagerSpecs := specs\<rparr>"
    unfolding TryConvertToNsxSpec_folded
    by (auto simp: bind_result_Inr_iff assert_string_Inr_iff assert_list_Inr_iff
        split: if_splits)
  from convertNsxManagerList_Inr [OF specs]
  have l: "list_all2 (\<lambda>entry s. \<exists>m. entry = VMap m \<and> conv m = Inr s) nsxManagerList specs"
    by simp
  from guarded_assign_Inr [OF r1] guarded_assign_Inr [OF r2] spec
  have "NsxTSpec.Vip spec = Some vip \<and> NsxTSpec.VipFqdn spec = Some vipFqdn
      \<and> NsxManagerAdminPassword spec = pw \<and> LicenseKey spec = key
      \<and> NsxManagerSpecs spec = specs"
    by auto
  with f l show ?thesis by simp
qed

lemma TryConvertToNsxSpec_Inr_optional:
  assumes "TryConvertToNsxSpec isEmpty conv object = Inr spec"
  shows "(absent_or_empty isEmpty object ''form_factor'' \<longrightarrow> FormFactor spec = [])
       \<and> (absent_or_empty isEmpty object ''nsx_manager_audit_password'' \<longrightarrow>
            NsxManagerAuditPassword spec = [])"
proof -
  from assms obtain vip vipFqdn pw key r1 r2 specs where
    r1: "guarded_assign isEmpty (lookup object ''form_factor'')
            (\<lambda>s. \<lparr>FormFactor = [], LicenseKey = key, NsxManagerAdminPassword = pw,
                  NsxManagerAuditPassword = [], NsxManagerSpecs = [],
                  Vip = Some vip, VipFqdn = Some vipFqdn\<rparr>\<lparr>FormFactor := s\<rparr>)
            \<lparr>FormFactor = [], LicenseKey = key, NsxManagerAdminPassword = pw,
                  NsxManagerAuditPassword = [], NsxManagerSpecs = [],
                  Vip = Some vip, VipFqdn = Some vipFqdn\<rparr> = Inr r1"
    and r2: "guarded_assign isEmpty (lookup object ''nsx_manager_audit_password'')
            (\<lambda>s. r1\<lparr>NsxManagerAuditPassword := s\<rparr>) r1 = Inr r2"
    and spec: "spec = r2\<lparr>NsxManagerSpecs := specs\<rparr>"
    unfolding TryConvertToNsxSpec_folded
    by (auto simp: bind_result_Inr_iff split: if_splits)
  have "FormFactor spec = FormFactor r1"
    using guarded_assign_Inr [OF r2] spec by auto
  moreover have "absent_or_empty isEmpty object ''form_factor'' \<Longrightarrow> FormFactor r1 = []"
    using guarded_assign_absent_or_empty [OF r1] by auto
  moreover have "NsxManagerAuditPassword r1 = []"
    using guarded_assign_Inr [OF r1] by auto
  then have "absent_or_empty isEmpty object ''nsx_manager_audit_password'' \<Longrightarrow>
      NsxManagerAuditPassword spec = []"
    using guarded_assign_absent_or_empty [OF r2] spec by auto
  ultimately show ?thesis by simp
qed

lemma TryConvertToVmNic_Inr_optional:
  assumes "TryConvertToVmNic isEmpty object = Inr nic"
  shows "(absent_or_empty isEmpty object ''uplink'' \<longrightarrow> Uplink nic = [])
       \<and> (absent_or_empty isEmpty object ''vds_name'' \<longrightarrow> VdsName nic = [])"
proof -
  from assms obtain id r1 where
    r1: "guarded_assign isEmpty (lookup object ''uplink'')
            (\<lambda>s. \<lparr>VMNic.ID = id, Uplink = [], VdsName = []\<rparr>\<lparr>Uplink := s\<rparr>)
            \<lparr>VMNic.ID = id, Uplink = [], VdsName = []\<rparr> = Inr r1"
    and r2: "guarded_assign isEmpty (lookup object ''vds_name'')
            (\<lambda>s. r1\<lparr>VdsName := s\<rparr>) r1 = Inr nic"
    unfolding TryConvertToVmNic_folded
    by (auto simp: bind_result_Inr_iff split: if_splits)
  have "Uplink nic = Uplink r1"
    using guarded_assign_Inr [OF r2] by auto
  moreover have "absent_or_empty isEmpty object ''uplink'' \<Longrightarrow> Uplink r1 = []"
    using guarded_assign_absent_or_empty [OF r1] by auto
  moreover have "VdsName r1 = []"
    using guarded_assign_Inr [OF r1] by auto
  then have "absent_or_empty isEmpty object ''vds_name'' \<Longrightarrow> VdsName nic = []"
    using guarded_assign_absent_or_empty [OF r2] by auto
  ultimately show ?thesis by simp
qed

text \<open>The checks of the converters, one after the other.\<close>

lemma index_VString_not_None: "index object k = VString s \<Longrightarrow> object \<noteq> None"
  by (auto simp: index_def split: option.splits)

lemma nonempty_string_not_None: "nonempty_string object k \<Longrightarrow> object \<noteq> None"
  by (auto simp: nonempty_string_def index_def split: option.splits)

lemma nonempty_string_assert:
  "nonempty_string object k \<Longrightarrow> \<exists>s. assert_string (index object k) = Inr s \<and> s \<noteq> []"
  by (auto simp: nonempty_string_def assert_string_def split: val.splits)

lemma TryConvertToVmNic_id_empty:
  assumes "index object ''id'' = VString []"
  shows "TryConvertToVmNic isEmpty object = Inl (Errorf ''cannot convert to VMNic, id is required'')"
  using assms index_VString_not_None [OF assms]
  by (simp add: TryConvertToVmNic_folded assert_string_VString bind_result_Inr)

lemma TryConvertToVmNic_id_absent:
  assumes "object \<noteq> None" "lookup object ''id'' = None"
  shows "TryConvertToVmNic isEmpty object = Inl Panic"
  using assms
  by (simp add: TryConvertToVmNic_folded lookup_None_index assert_string_VNil bind_result_Inl)

lemma TryConvertToNsxSpec_vip:
  assumes "object \<noteq> None"
  shows "index object ''vip'' = VString [] \<Longrightarrow>
           TryConvertToNsxSpec isEmpty conv object
           = Inl (Errorf ''cannot convert to NsxTSpec, vip is required'')"
    and "lookup object ''vip'' = None \<Longrightarrow> TryConvertToNsxSpec isEmpty conv object = Inl Panic"
  using assms
  by (simp_all add: TryConvertToNsxSpec_folded lookup_None_index assert_string_VString
        assert_string_VNil bind_result_Inl bind_result_Inr)

lemma TryConvertToNsxSpec_vip_fqdn:
  assumes "nonempty_string object ''vip''"
  shows "index object ''vip_fqdn'' = VString [] \<Longrightarrow>
           TryConvertToNsxSpec isEmpty conv object
           = Inl (Errorf ''cannot convert to NsxTSpec, vip_fqdn is required'')"
    and "lookup object ''vip_fqdn'' = None \<Longrightarrow>
           TryConvertToNsxSpec isEmpty conv object = Inl Panic"
  using nonempty_string_not_None [OF assms] nonempty_string_assert [OF assms]
  by (auto simp add: TryConvertToNsxSpec_folded lookup_None_index assert_string_VString
        assert_string_VNil bind_result_Inl bind_result_Inr)

lemma TryConvertToNsxSpec_admin_password:
  assumes "nonempty_string object ''vip''" "nonempty_string object ''vip_fqdn''"
    and "index object ''nsx_manager'' \<noteq> VNil"
  shows "index object ''nsx_manager_admin_password'' = VString [] \<Longrightarrow>
           TryConvertToNsxSpec isEmpty conv object
           = Inl (Errorf ''cannot convert to NsxTSpec, nsx_manager_admin_password is required'')"
    and "lookup object ''nsx_manager_admin_password'' = None \<Longrightarrow>
           TryConvertToNsxSpec isEmpty conv object = Inl Panic"
  using nonempty_string_not_None [OF assms(1)] nonempty_string_assert [OF assms(1)]
    nonempty_string_assert [OF assms(2)] assms(3)
  by (auto simp add: TryConvertToNsxSpec_folded lookup_None_index assert_string_VString
        assert_string_VNil bind_result_Inl bind_result_Inr)

lemma TryConvertToNsxSpec_license_key:
  assumes "nonempty_string object ''vip''" "nonempty_string object ''vip_fqdn''"
    and "index object ''nsx_manager'' \<noteq> VNil"
    and "nonempty_string object ''nsx_manager_admin_password''"
  shows "index object ''license_key'' = VString [] \<Longrightarrow>
           TryConvertToNsxSpec isEmpty conv object
           = Inl (Errorf ''cannot convert to NsxTSpec, license_key is required'')"
    and "lookup object ''license_key'' = None \<Longrightarrow>
           TryConvertToNsxSpec isEmpty conv object = Inl Panic"
  using nonempty_string_not_None [OF assms(1)] nonempty_string_assert [OF assms(1)]
    nonempty_string_assert [OF assms(2)] assms(3) nonempty_string_assert [OF assms(4)]
  by (auto simp add: TryConvertToNsxSpec_folded lookup_None_index assert_string_VString
        assert_string_VNil bind_result_Inl bind_result_Inr)

lemma TryConvertToNsxSpec_empty_node_list:
  fixes conv :: "gomap \<Rightarrow> error + 'n"
  assumes "nonempty_string object ''vip''" "nonempty_string object ''vip_fqdn''"
    and "index object ''nsx_manager'' \<noteq> VNil"
    and "nonempty_string object ''nsx_manager_admin_password''"
    and "nonempty_string object ''license_key''"
    and "optional_string isEmpty object ''form_factor''"
    and "optional_string isEmpty object ''nsx_manager_audit_password''"
    and "index object ''nsx_manager_node'' = VList []"
  shows "TryConvertToNsxSpec isEmpty conv object
         = Inl (Errorf ''cannot convert to NsxTSpec, at least one entry for nsx_manager is required'')"
proof -
  from assms(1,2,4,5) obtain vip vipFqdn pw key where s:
    "assert_string (index object ''vip'') = Inr vip" "vip \<noteq> []"
    "assert_string (index object ''vip_fqdn'') = Inr vipFqdn" "vipFqdn \<noteq> []"
    "assert_string (index object ''nsx_manager_admin_password'') = Inr pw" "pw \<noteq> []"
    "assert_string (index object ''license_key'') = Inr key" "key \<noteq> []"
    by (meson nonempty_string_assert)
  have nn: "object \<noteq> None" using assms(1) by (rule nonempty_string_not_None)
  obtain r1 where r1: "guarded_assign isEmpty (lookup object ''form_factor'')
            (\<lambda>s. \<lparr>FormFactor = s, LicenseKey = key, NsxManagerAdminPassword = pw,
                  NsxManagerAuditPassword = [], NsxManagerSpecs = ([] :: 'n list),
                  Vip = Some vip, VipFqdn = Some vipFqdn\<rparr>)
            \<lparr>FormFactor = [], LicenseKey = key, NsxManagerAdminPassword = pw,
                  NsxManagerAuditPassword = [], NsxManagerSpecs = ([] :: 'n list),
                  Vip = Some vip, VipFqdn = Some vipFqdn\<rparr> = Inr r1"
    using guarded_assign_optional_string [OF assms(6)] by (rule exE)
  obtain r2 where r2: "guarded_assign isEmpty (lookup object ''nsx_manager_audit_password'')
            (\<lambda>s. r1\<lparr>NsxManagerAuditPassword := s\<rparr>) r1 = Inr r2"
    using guarded_assign_optional_string [OF assms(7)] by (rule exE)
  show ?thesis
    unfolding TryConvertToNsxSpec_folded
    by (simp add: nn s assms(3) assms(8) r1 r2 bind_result_Inr assert_list_def)
qed

text \<open>The converters run on the concrete inputs.\<close>

lemmas example_defs = testAcc_nsx_configuration_def testAcc_nsx_manager_nodes_def
  testAcc_nsx_manager_node_def testAcc_license_key_def nsx_configuration_with_nsx_manager_def
  testAcc_vmnic_def nil_or_empty_string_def node_name_def converted_nsx_configuration_def

lemmas run_defs = TryConvertToVmNic_def TryConvertToNsxSpec_def bind_result_def index_def
  lookup_def assert_string_def assert_list_def assert_map_def Let_def

lemmas map_defs = nsx_configuration_with_nsx_manager_def testAcc_nsx_configuration_def
  testAcc_vmnic_def testAcc_license_key_def

lemmas condition_defs = nonempty_string_def absent_or_empty_def optional_string_def
  index_def lookup_def

lemma TryConvertToNsxSpec_with_nsx_manager:
  "TryConvertToNsxSpec nil_or_empty_string node_name (Some nsx_configuration_with_nsx_manager)
   = Inr converted_nsx_configuration"
  by (simp add: run_defs example_defs)

lemma TryConvertToNsxSpec_without_form_factor:
  "TryConvertToNsxSpec nil_or_empty_string node_name
     (Some (nsx_configuration_with_nsx_manager(''form_factor'' := None)))
   = Inr (converted_nsx_configuration\<lparr>FormFactor := []\<rparr>)"
  by (simp add: run_defs example_defs)

lemma TryConvertToVmNic_testAcc_vmnic:
  "TryConvertToVmNic nil_or_empty_string (Some testAcc_vmnic)
   = Inr \<lparr>VMNic.ID = ''vmnic0'', Uplink = [], VdsName = ''sfo-w01-cl01-vds01''\<rparr>"
  by (simp add: run_defs example_defs)

lemma TryConvertToVmNic_id_only:
  "TryConvertToVmNic nil_or_empty_string (Some [''id'' \<mapsto> VString ''vmnic1''])
   = Inr \<lparr>VMNic.ID = ''vmnic1'', Uplink = [], VdsName = []\<rparr>"
  by (simp add: run_defs example_defs)






lemma SDDCClusterSpec_eq_iff:
  "spec = \<lparr>ClusterEvcMode = a1, ClusterName = a2, HostFailuresToTolerate = a3,
          VMFolders = a4, ResourcePoolSpecs = a5\<rparr>
   \<longleftrightarrow> ClusterEvcMode spec = a1 \<and> ClusterName spec = a2 \<and> HostFailuresToTolerate spec = a3
     \<and> VMFolders spec = a4 \<and> ResourcePoolSpecs spec = a5"
  by (cases spec) auto








section \<open>Properties\<close>

text \<open>
  Claim C10. For a nil input map, \<open>TryConvertToVmNic\<close> and \<open>TryConvertToNsxSpec\<close> both
  return a nil result with a non-nil error. The nil map has no field to read, and the
  result does not depend on \<open>IsEmpty\<close> or on the node converter: the nil check comes first.
\<close>

theorem nil_object_is_rejected:
  "TryConvertToVmNic isEmpty None = Inl (Errorf ''cannot convert to VMNic, object is nil'')
   \<and> TryConvertToNsxSpec isEmpty conv None
       = Inl (Errorf ''cannot convert to NsxTSpec, object is nil'')"
  by (simp add: TryConvertToVmNic_def TryConvertToNsxSpec_def)

text \<open>
  Claim C8. \<open>FlattenNsxClusterRef\<close> always returns a non-nil pointer to a non-nil map. For
  a nil reference the map is empty; for a reference \<open>ref\<close> its keys are exactly
  \<^verbatim>\<open>id\<close>, \<^verbatim>\<open>vip\<close> and \<^verbatim>\<open>vip_fqdn\<close>, holding the fields \<^verbatim>\<open>ID\<close>, \<^verbatim>\<open>Vip\<close> and
  \<^verbatim>\<open>VipFqdn\<close> of \<open>ref\<close>.
\<close>

theorem FlattenNsxClusterRef_result:
  "FlattenNsxClusterRef nsxClusterRef \<noteq> None
   \<and> FlattenNsxClusterRef None = Some (Some Map.empty)
   \<and> (\<exists>result. FlattenNsxClusterRef (Some ref) = Some (Some result)
        \<and> dom result = {''id'', ''vip'', ''vip_fqdn''}
        \<and> result ''id'' = Some (VString (NsxTClusterReference.ID ref))
        \<and> result ''vip'' = Some (VString (NsxTClusterReference.Vip ref))
        \<and> result ''vip_fqdn'' = Some (VString (NsxTClusterReference.VipFqdn ref)))"
  by (auto simp: FlattenNsxClusterRef_def Let_def split: option.splits)



text \<open>
  Claim C5. When \<open>TryConvertToNsxSpec\<close> succeeds, \<^verbatim>\<open>Vip\<close>, \<^verbatim>\<open>VipFqdn\<close>,
  \<^verbatim>\<open>NsxManagerAdminPassword\<close> and \<^verbatim>\<open>LicenseKey\<close> of the result are the entries \<^verbatim>\<open>vip\<close>,
  \<^verbatim>\<open>vip_fqdn\<close>, \<^verbatim>\<open>nsx_manager_admin_password\<close> and \<^verbatim>\<open>license_key\<close> of the input map, and
  \<^verbatim>\<open>NsxManagerSpecs\<close> holds, position by position, the converted spec of each element of
  the \<^verbatim>\<open>nsx_manager_node\<close> list: same length, same order.
\<close>

theorem TryConvertToNsxSpec_fields:
  assumes "TryConvertToNsxSpec isEmpty conv object = Inr spec"
  shows "(\<exists>vip. NsxTSpec.Vip spec = Some vip \<and> index object ''vip'' = VString vip)
       \<and> (\<exists>vipFqdn. NsxTSpec.VipFqdn spec = Some vipFqdn
            \<and> index object ''vip_fqdn'' = VString vipFqdn)
       \<and> index object ''nsx_manager_admin_password'' = VString (NsxManagerAdminPassword spec)
       \<and> index object ''license_key'' = VString (LicenseKey spec)
       \<and> (\<exists>nsxManagerList. index object ''nsx_manager_node'' = VList nsxManagerList
            \<and> list_all2 (\<lambda>entry s. \<exists>m. entry = VMap m \<and> conv m = Inr s)
                 nsxManagerList (NsxManagerSpecs spec))"
  using TryConvertToNsxSpec_Inr [OF assms] by blast

text \<open>The theorem at the accepted configuration: the three nodes of the test convert to
  three specs, in order.\<close>

theorem TryConvertToNsxSpec_fields_witness:
  "TryConvertToNsxSpec nil_or_empty_string node_name (Some nsx_configuration_with_nsx_manager)
     = Inr converted_nsx_configuration
   \<and> NsxTSpec.Vip converted_nsx_configuration = Some ''10.0.0.66''
   \<and> index (Some nsx_configuration_with_nsx_manager) ''vip'' = VString ''10.0.0.66''
   \<and> NsxTSpec.VipFqdn converted_nsx_configuration = Some ''sfo-w01-nsx01.sfo.rainpole.io''
   \<and> index (Some nsx_configuration_with_nsx_manager) ''vip_fqdn''
       = VString ''sfo-w01-nsx01.sfo.rainpole.io''
   \<and> index (Some nsx_configuration_with_nsx_manager) ''nsx_manager_admin_password''
       = VString (NsxManagerAdminPassword converted_nsx_configuration)
   \<and> index (Some nsx_configuration_with_nsx_manager) ''license_key''
       = VString (LicenseKey converted_nsx_configuration)
   \<and> index (Some nsx_configuration_with_nsx_manager) ''nsx_manager_node''
       = VList testAcc_nsx_manager_nodes
   \<and> list_all2 (\<lambda>entry s. \<exists>m. entry = VMap m \<and> node_name m = Inr s)
        testAcc_nsx_manager_nodes (NsxManagerSpecs converted_nsx_configuration)"
  using TryConvertToNsxSpec_fields [OF TryConvertToNsxSpec_with_nsx_manager]
    TryConvertToNsxSpec_with_nsx_manager
  by (simp add: index_def nsx_configuration_with_nsx_manager_def testAcc_nsx_configuration_def
        converted_nsx_configuration_def)

text \<open>
  Claim C4. For each optional field (\<^verbatim>\<open>uplink\<close> and \<^verbatim>\<open>vds_name\<close> of \<open>TryConvertToVmNic\<close>,
  \<^verbatim>\<open>form_factor\<close> and \<^verbatim>\<open>nsx_manager_audit_password\<close> of \<open>TryConvertToNsxSpec\<close>): when the
  field is absent or empty in the input map and the conversion succeeds, the field of
  the result struct is the empty string.
\<close>

theorem optional_field_absent_or_empty:
  "(TryConvertToVmNic isEmpty object = Inr nic \<and> absent_or_empty isEmpty object ''uplink''
      \<longrightarrow> Uplink nic = [])
   \<and> (TryConvertToVmNic isEmpty object = Inr nic \<and> absent_or_empty isEmpty object ''vds_name''
      \<longrightarrow> VdsName nic = [])
   \<and> (TryConvertToNsxSpec isEmpty conv object = Inr spec
        \<and> absent_or_empty isEmpty object ''form_factor''
      \<longrightarrow> FormFactor spec = [])
   \<and> (TryConvertToNsxSpec isEmpty conv object = Inr spec
        \<and> absent_or_empty isEmpty object ''nsx_manager_audit_password''
      \<longrightarrow> NsxManagerAuditPassword spec = [])"
  using TryConvertToVmNic_Inr_optional [of isEmpty object nic]
    TryConvertToNsxSpec_Inr_optional [of isEmpty conv object spec]
  by blast

text \<open>The theorem at concrete inputs, one for each of the four optional fields.\<close>

theorem optional_field_absent_or_empty_witness:
  "TryConvertToVmNic nil_or_empty_string (Some testAcc_vmnic)
     = Inr \<lparr>VMNic.ID = ''vmnic0'', Uplink = [], VdsName = ''sfo-w01-cl01-vds01''\<rparr>
   \<and> absent_or_empty nil_or_empty_string (Some testAcc_vmnic) ''uplink''
   \<and> Uplink \<lparr>VMNic.ID = ''vmnic0'', Uplink = [], VdsName = ''sfo-w01-cl01-vds01''\<rparr> = []
   \<and> TryConvertToVmNic nil_or_empty_string (Some [''id'' \<mapsto> VString ''vmnic1''])
     = Inr \<lparr>VMNic.ID = ''vmnic1'', Uplink = [], VdsName = []\<rparr>
   \<and> absent_or_empty nil_or_empty_string (Some [''id'' \<mapsto> VString ''vmnic1'']) ''vds_name''
   \<and> VdsName \<lparr>VMNic.ID = ''vmnic1'', Uplink = [], VdsName = []\<rparr> = []
   \<and> TryConvertToNsxSpec nil_or_empty_string node_name
         (Some (nsx_configuration_with_nsx_manager(''form_factor'' := None)))
       = Inr (converted_nsx_configuration\<lparr>FormFactor := []\<rparr>)
   \<and> absent_or_empty nil_or_empty_string
         (Some (nsx_configuration_with_nsx_manager(''form_factor'' := None))) ''form_factor''
   \<and> FormFactor (converted_nsx_configuration\<lparr>FormFactor := []\<rparr>) = []
   \<and> TryConvertToNsxSpec nil_or_empty_string node_name (Some nsx_configuration_with_nsx_manager)
       = Inr converted_nsx_configuration
   \<and> absent_or_empty nil_or_empty_string (Some nsx_configuration_with_nsx_manager)
         ''nsx_manager_audit_password''
   \<and> NsxManagerAuditPassword converted_nsx_configuration = []"
proof -
  have a1: "absent_or_empty nil_or_empty_string (Some testAcc_vmnic) ''uplink''"
    by (simp add: condition_defs example_defs)
  have a2: "absent_or_empty nil_or_empty_string (Some [''id'' \<mapsto> VString ''vmnic1'']) ''vds_name''"
    by (simp add: condition_defs)
  have a3: "absent_or_empty nil_or_empty_string
         (Some (nsx_configuration_with_nsx_manager(''form_factor'' := None))) ''form_factor''"
    by (simp add: condition_defs)
  have a4: "absent_or_empty nil_or_empty_string (Some nsx_configuration_with_nsx_manager)
         ''nsx_manager_audit_password''"
    by (simp add: condition_defs example_defs)
  have c1: "Uplink \<lparr>VMNic.ID = ''vmnic0'', Uplink = [], VdsName = ''sfo-w01-cl01-vds01''\<rparr> = []"
    using optional_field_absent_or_empty
      [of nil_or_empty_string "Some testAcc_vmnic"
          "\<lparr>VMNic.ID = ''vmnic0'', Uplink = [], VdsName = ''sfo-w01-cl01-vds01''\<rparr>"]
      TryConvertToVmNic_testAcc_vmnic a1
    by blast
  have c2: "VdsName \<lparr>VMNic.ID = ''vmnic1'', Uplink = [], VdsName = []\<rparr> = []"
    using optional_field_absent_or_empty
      [of nil_or_empty_string "Some [''id'' \<mapsto> VString ''vmnic1'']"
          "\<lparr>VMNic.ID = ''vmnic1'', Uplink = [], VdsName = []\<rparr>"]
      TryConvertToVmNic_id_only a2
    by blast
  have c3: "FormFactor (converted_nsx_configuration\<lparr>FormFactor := []\<rparr>) = []"
    using optional_field_absent_or_empty
      [of nil_or_empty_string
          "Some (nsx_configuration_with_nsx_manager(''form_factor'' := None))" _ node_name
          "converted_nsx_configuration\<lparr>FormFactor := []\<rparr>"]
      TryConvertToNsxSpec_without_form_factor a3
    by blast
  have c4: "NsxManagerAuditPassword converted_nsx_configuration = []"
    using optional_field_absent_or_empty
      [of nil_or_empty_string "Some nsx_configuration_with_nsx_manager" _ node_name
          converted_nsx_configuration]
      TryConvertToNsxSpec_with_nsx_manager a4
    by blast
  show ?thesis
    using a1 a2 a3 a4 c1 c2 c3 c4 TryConvertToVmNic_testAcc_vmnic TryConvertToVmNic_id_only
      TryConvertToNsxSpec_without_form_factor TryConvertToNsxSpec_with_nsx_manager
    by blast
qed

text \<open>
  Claim C1, as stated, fails on the code. The attribute map of the \<^verbatim>\<open>nsx_configuration\<close>
  block of the acceptance test holds a non-empty value for every attribute that
  \<open>NsxSchema\<close> declares \<^verbatim>\<open>Required\<close>, three nodes included, and \<open>TryConvertToNsxSpec\<close> rejects
  it whatever \<open>IsEmpty\<close> and the node converter are: it tests the key \<^verbatim>\<open>nsx_manager\<close>,
  which the schema does not declare and the map does not hold, where the schema and the
  later read of the list name \<^verbatim>\<open>nsx_manager_node\<close>.
\<close>

theorem TryConvertToNsxSpec_rejects_testAcc_nsx_configuration:
  "populated (required_fields (NsxSchema ()))
     (testAcc_nsx_configuration testAcc_license_key [])
   \<and> (\<forall>isEmpty (conv :: gomap \<Rightarrow> error + 'n).
        TryConvertToNsxSpec isEmpty conv
          (Some (testAcc_nsx_configuration testAcc_license_key []))
        = Inl (Errorf ''cannot convert to NsxTSpec, nsx_manager is required''))"
  by (simp add: populated_def required_fields_def NsxSchema_def zeroSchema_def run_defs
        example_defs)

text \<open>
  Claim C2, as amended. For the required string field of each converter (\<^verbatim>\<open>id\<close>; \<^verbatim>\<open>vip\<close>,
  \<^verbatim>\<open>vip_fqdn\<close>, \<^verbatim>\<open>nsx_manager_admin_password\<close>, \<^verbatim>\<open>license_key\<close>): when the checks the
  converter makes before that field pass and the field holds the empty string, the
  converter returns an error whose message contains the field name. There is no presence
  check: the type assertion comes first, and when the field is absent the call panics.
\<close>

theorem required_string_field_empty_or_absent:
  fixes conv :: "gomap \<Rightarrow> error + 'n"
  shows
  "(index object ''id'' = VString [] \<longrightarrow>
      error_names ''id'' (TryConvertToVmNic isEmpty object))
   \<and> (object \<noteq> None \<and> lookup object ''id'' = None \<longrightarrow>
      TryConvertToVmNic isEmpty object = Inl Panic)
   \<and> (index object ''vip'' = VString [] \<longrightarrow>
      error_names ''vip'' (TryConvertToNsxSpec isEmpty conv object))
   \<and> (object \<noteq> None \<and> lookup object ''vip'' = None \<longrightarrow>
      TryConvertToNsxSpec isEmpty conv object = Inl Panic)
   \<and> (nonempty_string object ''vip'' \<and> index object ''vip_fqdn'' = VString [] \<longrightarrow>
      error_names ''vip_fqdn'' (TryConvertToNsxSpec isEmpty conv object))
   \<and> (nonempty_string object ''vip'' \<and> lookup object ''vip_fqdn'' = None \<longrightarrow>
      TryConvertToNsxSpec isEmpty conv object = Inl Panic)
   \<and> (nonempty_string object ''vip'' \<and> nonempty_string object ''vip_fqdn''
        \<and> index object ''nsx_manager'' \<noteq> VNil
        \<and> index object ''nsx_manager_admin_password'' = VString [] \<longrightarrow>
      error_names ''nsx_manager_admin_password'' (TryConvertToNsxSpec isEmpty conv object))
   \<and> (nonempty_string object ''vip'' \<and> nonempty_string object ''vip_fqdn''
        \<and> index object ''nsx_manager'' \<noteq> VNil
        \<and> lookup object ''nsx_manager_admin_password'' = None \<longrightarrow>
      TryConvertToNsxSpec isEmpty conv object = Inl Panic)
   \<and> (nonempty_string object ''vip'' \<and> nonempty_string object ''vip_fqdn''
        \<and> index object ''nsx_manager'' \<noteq> VNil
        \<and> nonempty_string object ''nsx_manager_admin_password''
        \<and> index object ''license_key'' = VString [] \<longrightarrow>
      error_names ''license_key'' (TryConvertToNsxSpec isEmpty conv object))
   \<and> (nonempty_string object ''vip'' \<and> nonempty_string object ''vip_fqdn''
        \<and> index object ''nsx_manager'' \<noteq> VNil
        \<and> nonempty_string object ''nsx_manager_admin_password''
        \<and> lookup object ''license_key'' = None \<longrightarrow>
      TryConvertToNsxSpec isEmpty conv object = Inl Panic)"
proof -
  have id: "index object ''id'' = VString [] \<Longrightarrow>
      error_names ''id'' (TryConvertToVmNic isEmpty object)"
    by (simp add: TryConvertToVmNic_id_empty error_names_def)
  have vip: "index object ''vip'' = VString [] \<Longrightarrow>
      error_names ''vip'' (TryConvertToNsxSpec isEmpty conv object)"
    by (simp add: TryConvertToNsxSpec_vip(1) [OF index_VString_not_None] error_names_def)
  have fqdn: "nonempty_string object ''vip'' \<Longrightarrow> index object ''vip_fqdn'' = VString [] \<Longrightarrow>
      error_names ''vip_fqdn'' (TryConvertToNsxSpec isEmpty conv object)"
    by (simp add: TryConvertToNsxSpec_vip_fqdn(1) error_names_def)
  have pw: "nonempty_string object ''vip'' \<Longrightarrow> nonempty_string object ''vip_fqdn'' \<Longrightarrow>
      index object ''nsx_manager'' \<noteq> VNil \<Longrightarrow>
      index object ''nsx_manager_admin_password'' = VString [] \<Longrightarrow>
      error_names ''nsx_manager_admin_password'' (TryConvertToNsxSpec isEmpty conv object)"
    by (simp add: TryConvertToNsxSpec_admin_password(1) error_names_def)
  have key: "nonempty_string object ''vip'' \<Longrightarrow> nonempty_string object ''vip_fqdn'' \<Longrightarrow>
      index object ''nsx_manager'' \<noteq> VNil \<Longrightarrow>
      nonempty_string object ''nsx_manager_admin_password'' \<Longrightarrow>
      index object ''license_key'' = VString [] \<Longrightarrow>
      error_names ''license_key'' (TryConvertToNsxSpec isEmpty conv object)"
    by (simp add: TryConvertToNsxSpec_license_key(1) error_names_def)
  show ?thesis
    apply (intro conjI impI; (elim conjE)?)
    subgoal by (rule id)
    subgoal by (rule TryConvertToVmNic_id_absent)
    subgoal by (rule vip)
    subgoal by (rule TryConvertToNsxSpec_vip(2))
    subgoal by (rule fqdn)
    subgoal by (rule TryConvertToNsxSpec_vip_fqdn(2))
    subgoal by (rule pw)
    subgoal by (rule TryConvertToNsxSpec_admin_password(2))
    subgoal by (rule key)
    subgoal by (rule TryConvertToNsxSpec_license_key(2))
    done
qed

text \<open>The theorem at concrete inputs: the \<^verbatim>\<open>vmnic\<close> block and the accepted configuration
  with one required field emptied or removed at a time.\<close>

theorem required_string_field_empty_or_absent_witness:
  "error_names ''id'' (TryConvertToVmNic nil_or_empty_string
        (Some (testAcc_vmnic(''id'' \<mapsto> VString []))))
   \<and> TryConvertToVmNic nil_or_empty_string (Some (testAcc_vmnic(''id'' := None))) = Inl Panic
   \<and> error_names ''vip''
       (TryConvertToNsxSpec nil_or_empty_string node_name
        (Some (nsx_configuration_with_nsx_manager(''vip'' \<mapsto> VString []))))
   \<and> TryConvertToNsxSpec nil_or_empty_string node_name
        (Some (nsx_configuration_with_nsx_manager(''vip'' := None))) = Inl Panic
   \<and> error_names ''vip_fqdn''
       (TryConvertToNsxSpec nil_or_empty_string node_name
        (Some (nsx_configuration_with_nsx_manager(''vip_fqdn'' \<mapsto> VString []))))
   \<and> TryConvertToNsxSpec nil_or_empty_string node_name
        (Some (nsx_configuration_with_nsx_manager(''vip_fqdn'' := None))) = Inl Panic
   \<and> error_names ''nsx_manager_admin_password''
       (TryConvertToNsxSpec nil_or_empty_string node_name
        (Some (nsx_configuration_with_nsx_manager(''nsx_manager_admin_password'' \<mapsto> VString []))))
   \<and> TryConvertToNsxSpec nil_or_empty_string node_name
        (Some (nsx_configuration_with_nsx_manager(''nsx_manager_admin_password'' := None))) = Inl Panic
   \<and> error_names ''license_key''
       (TryConvertToNsxSpec nil_or_empty_string node_name
        (Some (nsx_configuration_with_nsx_manager(''license_key'' \<mapsto> VString []))))
   \<and> TryConvertToNsxSpec nil_or_empty_string node_name
        (Some (nsx_configuration_with_nsx_manager(''license_key'' := None))) = Inl Panic"
proof -
  have w1: "error_names ''id'' (TryConvertToVmNic nil_or_empty_string
        (Some (testAcc_vmnic(''id'' \<mapsto> VString []))))"
  proof -
    have h: "index (Some (testAcc_vmnic(''id'' \<mapsto> VString []))) ''id'' = VString []"
      by (simp add: condition_defs map_defs nil_or_empty_string_def)
    show ?thesis
      by (rule required_string_field_empty_or_absent
        [of "Some (testAcc_vmnic(''id'' \<mapsto> VString []))" nil_or_empty_string node_name, THEN conjunct1, THEN mp, OF h])
  qed
  have w2: "TryConvertToVmNic nil_or_empty_string (Some (testAcc_vmnic(''id'' := None))) = Inl Panic"
  proof -
    have h: "Some (testAcc_vmnic(''id'' := None)) \<noteq> None
        \<and> lookup (Some (testAcc_vmnic(''id'' := None))) ''id'' = None"
      by (simp add: condition_defs map_defs nil_or_empty_string_def)
    show ?thesis
      by (rule required_string_field_empty_or_absent
        [of "Some (testAcc_vmnic(''id'' := None))" nil_or_empty_string node_name, THEN conjunct2, THEN conjunct1, THEN mp, OF h])
  qed
  have w3: "error_names ''vip''
       (TryConvertToNsxSpec nil_or_empty_string node_name
        (Some (nsx_configuration_with_nsx_manager(''vip'' \<mapsto> VString []))))"
  proof -
    have h: "index (Some (nsx_configuration_with_nsx_manager(''vip'' \<mapsto> VString []))) ''vip'' = VString []"
      by (simp add: condition_defs map_defs nil_or_empty_string_def)
    show ?thesis
      by (rule required_string_field_empty_or_absent
        [of "Some (nsx_configuration_with_nsx_manager(''vip'' \<mapsto> VString []))" nil_or_empty_string node_name, THEN conjunct2, THEN conjunct2, THEN conjunct1, THEN mp, OF h])
  qed
  have w4: "TryConvertToNsxSpec nil_or_empty_string node_name
        (Some (nsx_configuration_with_nsx_manager(''vip'' := None))) = Inl Panic"
  proof -
    have h: "Some (nsx_configuration_with_nsx_manager(''vip'' := None)) \<noteq> None
        \<and> lookup (Some (nsx_configuration_with_nsx_manager(''vip'' := None))) ''vip'' = None"
      by (simp add: condition_defs map_defs nil_or_empty_string_def)
    show ?thesis
      by (rule required_string_field_empty_or_absent
        [of "Some (nsx_configuration_with_nsx_manager(''vip'' := None))" nil_or_empty_string node_name, THEN conjunct2, THEN conjunct2, THEN conjunct2, THEN conjunct1, THEN mp, OF h])
  qed
  have w5: "error_names ''vip_fqdn''
       (TryConvertToNsxSpec nil_or_empty_string node_name
        (Some (nsx_configuration_with_nsx_manager(''vip_fqdn'' \<mapsto> VString []))))"
  proof -
    have h: "nonempty_string (Some (nsx_configuration_with_nsx_manager(''vip_fqdn'' \<mapsto> VString []))) ''vip''
        \<and> index (Some (nsx_configuration_with_nsx_manager(''vip_fqdn'' \<mapsto> VString []))) ''vip_fqdn'' = VString []"
      by (simp add: condition_defs map_defs nil_or_empty_string_def)
    show ?thesis
      by (rule required_string_field_empty_or_absent
        [of "Some (nsx_configuration_with_nsx_manager(''vip_fqdn'' \<mapsto> VString []))" nil_or_empty_string node_name, THEN conjunct2, THEN conjunct2, THEN conjunct2, THEN conjunct2, THEN conjunct1, THEN mp, OF h])
  qed
  have w6: "TryConvertToNsxSpec nil_or_empty_string node_name
        (Some (nsx_configuration_with_nsx_manager(''vip_fqdn'' := None))) = Inl Panic"
  proof -
    have h: "nonempty_string (Some (nsx_configuration_with_nsx_manager(''vip_fqdn'' := None))) ''vip''
        \<and> lookup (Some (nsx_configuration_with_nsx_manager(''vip_fqdn'' := None))) ''vip_fqdn'' = None"
      by (simp add: condition_defs map_defs nil_or_empty_string_def)
    show ?thesis
      by (rule required_string_field_empty_or_absent
        [of "Some (nsx_configuration_with_nsx_manager(''vip_fqdn'' := None))" nil_or_empty_string node_name, THEN conjunct2, THEN conjunct2, THEN conjunct2, THEN conjunct2, THEN conjunct2, THEN conjunct1, THEN mp, OF h])
  qed
  have w7: "error_names ''nsx_manager_admin_password''
       (TryConvertToNsxSpec nil_or_empty_string node_name
        (Some (nsx_configuration_with_nsx_manager(''nsx_manager_admin_password'' \<mapsto> VString []))))"
  proof -
    have h: "nonempty_string (Some (nsx_configuration_with_nsx_manager(''nsx_manager_admin_password'' \<mapsto> VString []))) ''vip''
        \<and> nonempty_string (Some (nsx_configuration_with_nsx_manager(''nsx_manager_admin_password'' \<mapsto> VString []))) ''vip_fqdn''
        \<and> index (Some (nsx_configuration_with_nsx_manager(''nsx_manager_admin_password'' \<mapsto> VString []))) ''nsx_manager'' \<noteq> VNil
        \<and> index (Some (nsx_configuration_with_nsx_manager(''nsx_manager_admin_password'' \<mapsto> VString []))) ''nsx_manager_admin_password'' = VString []"
      by (simp add: condition_defs map_defs nil_or_empty_string_def)
    show ?thesis
      by (rule required_string_field_empty_or_absent
        [of "Some (nsx_configuration_with_nsx_manager(''nsx_manager_admin_password'' \<mapsto> VString []))" nil_or_empty_string node_name, THEN conjunct2, THEN conjunct2, THEN conjunct2, THEN conjunct2, THEN conjunct2, THEN conjunct2, THEN conjunct1, THEN mp, OF h])
  qed
  have w8: "TryConvertToNsxSpec nil_or_empty_string node_name
        (Some (nsx_configuration_with_nsx_manager(''nsx_manager_admin_password'' := None))) = Inl Panic"
  proof -
    have h: "nonempty_string (Some (nsx_configuration_with_nsx_manager(''nsx_manager_admin_password'' := None))) ''vip''
        \<and> nonempty_string (Some (nsx_configuration_with_nsx_manager(''nsx_manager_admin_password'' := None))) ''vip_fqdn''
        \<and> index (Some (nsx_configuration_with_nsx_manager(''nsx_manager_admin_password'' := None))) ''nsx_manager'' \<noteq> VNil
        \<and> lookup (Some (nsx_configuration_with_nsx_manager(''nsx_manager_admin_password'' := None))) ''nsx_manager_admin_password'' = None"
      by (simp add: condition_defs map_defs nil_or_empty_string_def)
    show ?thesis
      by (rule required_string_field_empty_or_absent
        [of "Some (nsx_configuration_with_nsx_manager(''nsx_manager_admin_password'' := None))" nil_or_empty_string node_name, THEN conjunct2, THEN conjunct2, THEN conjunct2, THEN conjunct2, THEN conjunct2, THEN conjunct2, THEN conjunct2, THEN conjunct1, THEN mp, OF h])
  qed
  have w9: "error_names ''license_key''
       (TryConvertToNsxSpec nil_or_empty_string node_name
        (Some (nsx_configuration_with_nsx_manager(''license_key'' \<mapsto> VString []))))"
  proof -
    have h: "nonempty_string (Some (nsx_configuration_with_nsx_manager(''license_key'' \<mapsto> VString []))) ''vip''
        \<and> nonempty_string (Some (nsx_configuration_with_nsx_manager(''license_key'' \<mapsto> VString []))) ''vip_fqdn''
        \<and> index (Some (nsx_configuration_with_nsx_manager(''license_key'' \<mapsto> VString []))) ''nsx_manager'' \<noteq> VNil
        \<and> nonempty_string (Some (nsx_configuration_with_nsx_manager(''license_key'' \<mapsto> VString []))) ''nsx_manager_admin_password''
        \<and> index (Some (nsx_configuration_with_nsx_manager(''license_key'' \<mapsto> VString []))) ''license_key'' = VString []"
      by (simp add: condition_defs map_defs nil_or_empty_string_def)
    show ?thesis
      by (rule required_string_field_empty_or_absent
        [of "Some (nsx_configuration_with_nsx_manager(''license_key'' \<mapsto> VString []))" nil_or_empty_string node_name, THEN conjunct2, THEN conjunct2, THEN conjunct2, THEN conjunct2, THEN conjunct2, THEN conjunct2, THEN conjunct2, THEN conjunct2, THEN conjunct1, THEN mp, OF h])
  qed
  have w10: "TryConvertToNsxSpec nil_or_empty_string node_name
        (Some (nsx_configuration_with_nsx_manager(''license_key'' := None))) = Inl Panic"
  proof -
    have h: "nonempty_string (Some (nsx_configuration_with_nsx_manager(''license_key'' := None))) ''vip''
        \<and> nonempty_string (Some (nsx_configuration_with_nsx_manager(''license_key'' := None))) ''vip_fqdn''
        \<and> index (Some (nsx_configuration_with_nsx_manager(''license_key'' := None))) ''nsx_manager'' \<noteq> VNil
        \<and> nonempty_string (Some (nsx_configuration_with_nsx_manager(''license_key'' := None))) ''nsx_manager_admin_password''
        \<and> lookup (Some (nsx_configuration_with_nsx_manager(''license_key'' := None))) ''license_key'' = None"
      by (simp add: condition_defs map_defs nil_or_empty_string_def)
    show ?thesis
      by (rule required_string_field_empty_or_absent
        [of "Some (nsx_configuration_with_nsx_manager(''license_key'' := None))" nil_or_empty_string node_name, THEN conjunct2, THEN conjunct2, THEN conjunct2, THEN conjunct2, THEN conjunct2, THEN conjunct2, THEN conjunct2, THEN conjunct2, THEN conjunct2, THEN mp, OF h])
  qed
  show ?thesis
    by (intro conjI) (fact w1 w2 w3 w4 w5 w6 w7 w8 w9 w10)+
qed

text \<open>Claim C2, as stated, fails: on a \<^verbatim>\<open>vmnic\<close> map without the key \<^verbatim>\<open>id\<close> the
  converter panics; it returns no error naming \<^verbatim>\<open>id\<close>.\<close>

theorem required_field_absent_counterexample:
  "lookup (Some (testAcc_vmnic(''id'' := None))) ''id'' = None
   \<and> TryConvertToVmNic nil_or_empty_string (Some (testAcc_vmnic(''id'' := None))) = Inl Panic
   \<and> \<not> error_names ''id''
         (TryConvertToVmNic nil_or_empty_string (Some (testAcc_vmnic(''id'' := None))))"
  by (simp add: run_defs example_defs error_names_def)

text \<open>
  Claim C6, as amended. On an input map whose \<^verbatim>\<open>nsx_manager_node\<close> entry is the empty
  list, \<open>TryConvertToNsxSpec\<close> never returns a spec. When the checks made before the list
  is read pass (\<^verbatim>\<open>vip\<close>, \<^verbatim>\<open>vip_fqdn\<close>, \<^verbatim>\<open>nsx_manager_admin_password\<close> and \<^verbatim>\<open>license_key\<close>
  are non-empty strings, the \<^verbatim>\<open>nsx_manager\<close> entry is not nil, and each optional field is
  absent, empty or a string), it returns a nil result and the error that at least one
  entry for nsx_manager is required.
\<close>

theorem empty_nsx_manager_node_list:
  fixes conv :: "gomap \<Rightarrow> error + 'n"
  assumes "index object ''nsx_manager_node'' = VList []"
  shows "(\<forall>spec. TryConvertToNsxSpec isEmpty conv object \<noteq> Inr spec)
       \<and> (nonempty_string object ''vip'' \<and> nonempty_string object ''vip_fqdn''
            \<and> index object ''nsx_manager'' \<noteq> VNil
            \<and> nonempty_string object ''nsx_manager_admin_password''
            \<and> nonempty_string object ''license_key''
            \<and> optional_string isEmpty object ''form_factor''
            \<and> optional_string isEmpty object ''nsx_manager_audit_password''
          \<longrightarrow> TryConvertToNsxSpec isEmpty conv object
              = Inl (Errorf ''cannot convert to NsxTSpec, at least one entry for nsx_manager is required''))"
proof (intro conjI allI impI)
  fix spec
  show "TryConvertToNsxSpec isEmpty conv object \<noteq> Inr spec"
  proof
    assume "TryConvertToNsxSpec isEmpty conv object = Inr spec"
    from TryConvertToNsxSpec_Inr [OF this] assms show False by auto
  qed
next
  assume "nonempty_string object ''vip'' \<and> nonempty_string object ''vip_fqdn''
            \<and> index object ''nsx_manager'' \<noteq> VNil
            \<and> nonempty_string object ''nsx_manager_admin_password''
            \<and> nonempty_string object ''license_key''
            \<and> optional_string isEmpty object ''form_factor''
            \<and> optional_string isEmpty object ''nsx_manager_audit_password''"
  with assms show "TryConvertToNsxSpec isEmpty conv object
      = Inl (Errorf ''cannot convert to NsxTSpec, at least one entry for nsx_manager is required'')"
    by (simp add: TryConvertToNsxSpec_empty_node_list)
qed

text \<open>The theorem at the accepted configuration with its node list emptied.\<close>

theorem empty_nsx_manager_node_list_witness:
  "index (Some (nsx_configuration_with_nsx_manager(''nsx_manager_node'' \<mapsto> VList []))) ''nsx_manager_node'' = VList []
   \<and> TryConvertToNsxSpec nil_or_empty_string node_name
        (Some (nsx_configuration_with_nsx_manager(''nsx_manager_node'' \<mapsto> VList [])))
       = Inl (Errorf ''cannot convert to NsxTSpec, at least one entry for nsx_manager is required'')"
proof -
  have e: "index (Some (nsx_configuration_with_nsx_manager(''nsx_manager_node'' \<mapsto> VList []))) ''nsx_manager_node'' = VList []"
    by (simp add: index_def)
  have h: "nonempty_string (Some (nsx_configuration_with_nsx_manager(''nsx_manager_node'' \<mapsto> VList []))) ''vip''
      \<and> nonempty_string (Some (nsx_configuration_with_nsx_manager(''nsx_manager_node'' \<mapsto> VList []))) ''vip_fqdn''
      \<and> index (Some (nsx_configuration_with_nsx_manager(''nsx_manager_node'' \<mapsto> VList []))) ''nsx_manager'' \<noteq> VNil
      \<and> nonempty_string (Some (nsx_configuration_with_nsx_manager(''nsx_manager_node'' \<mapsto> VList []))) ''nsx_manager_admin_password''
      \<and> nonempty_string (Some (nsx_configuration_with_nsx_manager(''nsx_manager_node'' \<mapsto> VList []))) ''license_key''
      \<and> optional_string nil_or_empty_string (Some (nsx_configuration_with_nsx_manager(''nsx_manager_node'' \<mapsto> VList []))) ''form_factor''
      \<and> optional_string nil_or_empty_string (Some (nsx_configuration_with_nsx_manager(''nsx_manager_node'' \<mapsto> VList []))) ''nsx_manager_audit_password''"
    by (simp add: condition_defs map_defs nil_or_empty_string_def)
  from e empty_nsx_manager_node_list [OF e, of nil_or_empty_string node_name, THEN conjunct2, THEN mp, OF h]
  show ?thesis by (rule conjI)
qed

text \<open>Claim C6, as stated, fails: with an empty \<^verbatim>\<open>vip\<close> beside the empty node list, the
  error is the one of the \<^verbatim>\<open>vip\<close> check, which comes first.\<close>

theorem empty_nsx_manager_node_list_counterexample:
  "index (Some ((testAcc_nsx_configuration testAcc_license_key [])
             (''vip'' \<mapsto> VString [], ''nsx_manager_node'' \<mapsto> VList [])))
     ''nsx_manager_node'' = VList []
   \<and> TryConvertToNsxSpec nil_or_empty_string node_name
        (Some ((testAcc_nsx_configuration testAcc_license_key [])
             (''vip'' \<mapsto> VString [], ''nsx_manager_node'' \<mapsto> VList [])))
       = Inl (Errorf ''cannot convert to NsxTSpec, vip is required'')
   \<and> \<not> error_names ''at least one entry for nsx_manager is required''
        (TryConvertToNsxSpec nil_or_empty_string node_name
          (Some ((testAcc_nsx_configuration testAcc_license_key [])
             (''vip'' \<mapsto> VString [], ''nsx_manager_node'' \<mapsto> VList []))))"
  by (simp add: run_defs example_defs error_names_def)

text \<open>
  Claim C3, as amended. The converter builds an \<^verbatim>\<open>NsxTSpec\<close> and the flattener reads an
  \<^verbatim>\<open>NsxTClusterReference\<close>; the two share the attributes \<^verbatim>\<open>vip\<close> and \<^verbatim>\<open>vip_fqdn\<close>. When
  \<open>TryConvertToNsxSpec\<close> succeeds on a map, flattening a cluster reference that carries
  the \<^verbatim>\<open>Vip\<close> and \<^verbatim>\<open>VipFqdn\<close> of the converted spec (and any \<^verbatim>\<open>ID\<close>) gives a map whose
  \<^verbatim>\<open>vip\<close> and \<^verbatim>\<open>vip_fqdn\<close> entries are those of the original map.
\<close>

theorem convert_then_flatten_vip:
  assumes "TryConvertToNsxSpec isEmpty conv (Some m) = Inr spec"
    and "NsxTSpec.Vip spec = Some vip"
    and "NsxTSpec.VipFqdn spec = Some vipFqdn"
  shows "\<exists>result.
           FlattenNsxClusterRef
             (Some \<lparr>NsxTClusterReference.ID = ident, Vip = vip, VipFqdn = vipFqdn\<rparr>)
           = Some (Some result)
         \<and> result ''vip'' = m ''vip''
         \<and> result ''vip_fqdn'' = m ''vip_fqdn''"
proof -
  from TryConvertToNsxSpec_Inr [OF assms(1)] assms(2,3)
  have "index (Some m) ''vip'' = VString vip" "index (Some m) ''vip_fqdn'' = VString vipFqdn"
    by auto
  then have "m ''vip'' = Some (VString vip)" "m ''vip_fqdn'' = Some (VString vipFqdn)"
    by (auto dest!: index_VString_lookup simp: lookup_def)
  then show ?thesis
    by (simp add: FlattenNsxClusterRef_def Let_def)
qed

text \<open>The theorem at the accepted configuration.\<close>

theorem convert_then_flatten_vip_witness:
  "TryConvertToNsxSpec nil_or_empty_string node_name (Some nsx_configuration_with_nsx_manager)
     = Inr converted_nsx_configuration
   \<and> NsxTSpec.Vip converted_nsx_configuration = Some ''10.0.0.66''
   \<and> NsxTSpec.VipFqdn converted_nsx_configuration = Some ''sfo-w01-nsx01.sfo.rainpole.io''
   \<and> (\<exists>result.
         FlattenNsxClusterRef
           (Some \<lparr>NsxTClusterReference.ID = ''nsx-cluster-1'', Vip = ''10.0.0.66'',
                  VipFqdn = ''sfo-w01-nsx01.sfo.rainpole.io''\<rparr>)
         = Some (Some result)
       \<and> result ''vip'' = nsx_configuration_with_nsx_manager ''vip''
       \<and> result ''vip_fqdn'' = nsx_configuration_with_nsx_manager ''vip_fqdn'')"
proof -
  have v: "NsxTSpec.Vip converted_nsx_configuration = Some ''10.0.0.66''"
    "NsxTSpec.VipFqdn converted_nsx_configuration = Some ''sfo-w01-nsx01.sfo.rainpole.io''"
    by (simp_all add: converted_nsx_configuration_def)
  from convert_then_flatten_vip [OF TryConvertToNsxSpec_with_nsx_manager v, of "''nsx-cluster-1''"]
    TryConvertToNsxSpec_with_nsx_manager v
  show ?thesis by simp
qed

text \<open>Claim C3, as stated, fails: a fully populated \<open>NsxSchema\<close> map is not the flattening
  of any cluster reference, so no conversion followed by \<open>FlattenNsxClusterRef\<close> gives it
  back.\<close>

theorem convert_then_flatten_counterexample:
  "fully_populated (NsxSchema ())
     (testAcc_nsx_configuration testAcc_license_key ''Nqkva_parola2'')
   \<and> (\<forall>nsxClusterRef.
        FlattenNsxClusterRef nsxClusterRef
        \<noteq> Some (Some (testAcc_nsx_configuration testAcc_license_key ''Nqkva_parola2'')))"
proof (intro conjI allI)
  show "fully_populated (NsxSchema ())
     (testAcc_nsx_configuration testAcc_license_key ''Nqkva_parola2'')"
    by (simp add: fully_populated_def populated_def NsxSchema_def zeroSchema_def example_defs)
next
  fix nsxClusterRef
  have key: "testAcc_nsx_configuration testAcc_license_key ''Nqkva_parola2'' ''license_key''
      = Some (VString testAcc_license_key)"
    by (simp add: testAcc_nsx_configuration_def)
  show "FlattenNsxClusterRef nsxClusterRef
        \<noteq> Some (Some (testAcc_nsx_configuration testAcc_license_key ''Nqkva_parola2''))"
  proof
    assume "FlattenNsxClusterRef nsxClusterRef
        = Some (Some (testAcc_nsx_configuration testAcc_license_key ''Nqkva_parola2''))"
    then have "\<exists>result. FlattenNsxClusterRef nsxClusterRef = Some (Some result)
        \<and> result ''license_key'' = Some (VString testAcc_license_key)"
      using key by simp
    then show False
      by (cases nsxClusterRef) (auto simp: FlattenNsxClusterRef_def Let_def)
  qed
qed

end
